theory Spec2Isabelle
  imports Complex_Main "HOL-Library.Word" "HOL-Library.AList"
begin

section \<open>Strings\<close>

text \<open>
  Python strings are modelled as \<^typ>\<open>string\<close>. The operations below are the ones
  \<^verbatim>\<open>app.py\<close> applies to file names: \<^verbatim>\<open>str.lower\<close>, \<^verbatim>\<open>str.rsplit('.', 1)\<close>,
  \<^verbatim>\<open>str.startswith\<close>, \<^verbatim>\<open>sep.join\<close>, \<^verbatim>\<open>str.split()\<close> and \<^verbatim>\<open>str.strip(chars)\<close>.
  Case conversion is the one of ASCII letters; every other character is left as it is.
\<close>

definition lower_char :: "char \<Rightarrow> char" where
  "lower_char c =
     (case map_of (zip ''ABCDEFGHIJKLMNOPQRSTUVWXYZ'' ''abcdefghijklmnopqrstuvwxyz'') c of
        None \<Rightarrow> c
      | Some d \<Rightarrow> d)"

definition lower :: "string \<Rightarrow> string" where
  "lower s = map lower_char s"

text \<open>
  \<^verbatim>\<open>s.rsplit(c, 1)\<close>: the list of the part before the last \<open>c\<close> and the part after
  it, or the one-element list \<open>[s]\<close> when \<open>c\<close> does not occur.
\<close>

definition rsplit1 :: "char \<Rightarrow> string \<Rightarrow> string list" where
  "rsplit1 c s =
     (if c \<in> set s
      then [rev (tl (dropWhile (\<lambda>x. x \<noteq> c) (rev s))), rev (takeWhile (\<lambda>x. x \<noteq> c) (rev s))]
      else [s])"

definition startswith :: "string \<Rightarrow> string \<Rightarrow> bool" where
  "startswith s p = (take (length p) s = p)"

fun join :: "string \<Rightarrow> string list \<Rightarrow> string" where
  "join sep [] = []"
| "join sep [w] = w"
| "join sep (w # v # ws) = w @ sep @ join sep (v # ws)"

text \<open>The characters for which \<^verbatim>\<open>str.isspace\<close> holds, among the ASCII ones.\<close>

definition is_space :: "char \<Rightarrow> bool" where
  "is_space c = (c \<in> set [CHR '' '', CHR 0x09, CHR 0x0A, CHR 0x0B, CHR 0x0C, CHR 0x0D,
                            CHR 0x1C, CHR 0x1D, CHR 0x1E, CHR 0x1F])"

text \<open>
  \<^verbatim>\<open>s.split()\<close>: the maximal runs of non-space characters. The first argument
  holds the characters of the word being read, last one first.
\<close>

fun split_acc :: "string \<Rightarrow> string \<Rightarrow> string list" where
  "split_acc cur [] = (if cur = [] then [] else [rev cur])"
| "split_acc cur (c # cs) =
     (if is_space c
      then (if cur = [] then split_acc [] cs else rev cur # split_acc [] cs)
      else split_acc (c # cur) cs)"

definition split_ws :: "string \<Rightarrow> string list" where
  "split_ws s = split_acc [] s"

definition strip :: "string \<Rightarrow> string \<Rightarrow> string" where
  "strip chars s =
     rev (dropWhile (\<lambda>c. c \<in> set chars) (rev (dropWhile (\<lambda>c. c \<in> set chars) s)))"

text \<open>Decimal digits of a natural number, as \<^verbatim>\<open>str(n)\<close> prints them.\<close>

definition digit_char :: "nat \<Rightarrow> char" where
  "digit_char n = ''0123456789'' ! (n mod 10)"

fun show_nat :: "nat \<Rightarrow> string" where
  "show_nat n = (if n < 10 then [digit_char n] else show_nat (n div 10) @ [digit_char n])"

declare show_nat.simps [simp del]

section \<open>Configuration\<close>

definition UPLOAD_FOLDER :: string where
  "UPLOAD_FOLDER = ''uploads''"

definition MAX_FILE_SIZE :: nat where
  "MAX_FILE_SIZE = 5 * 1024 * 1024"

definition ALLOWED_EXTENSIONS :: "string set" where
  "ALLOWED_EXTENSIONS = {''png'', ''jpg'', ''jpeg'', ''gif'', ''pdf''}"

definition DANGEROUS_EXTENSIONS :: "string set" where
  "DANGEROUS_EXTENSIONS =
     {''exe'', ''sh'', ''bat'', ''cmd'', ''com'', ''pif'', ''scr'', ''vbs'', ''js''}"

section \<open>Helper functions\<close>

subsection \<open>\<^verbatim>\<open>allowed_file\<close>\<close>

text \<open>
  The body of \<^verbatim>\<open>allowed_file\<close>, with the two module-level sets it reads as
  arguments: first the allow-set, then the deny-set.
\<close>

definition allowed_file_with :: "string set \<Rightarrow> string set \<Rightarrow> string \<Rightarrow> bool" where
  "allowed_file_with allowed dangerous filename =
     (if CHR ''.'' \<notin> set filename then False
      else let ext = lower (rsplit1 CHR ''.'' filename ! 1)
           in if ext \<in> dangerous then False
              else ext \<in> allowed)"

definition allowed_file :: "string \<Rightarrow> bool" where
  "allowed_file filename = allowed_file_with ALLOWED_EXTENSIONS DANGEROUS_EXTENSIONS filename"

subsection \<open>\<^verbatim>\<open>secure_filename\<close>\<close>

text \<open>
  \<^verbatim>\<open>secure_filename\<close> is imported from \<^verbatim>\<open>werkzeug.utils\<close>. The definition follows the
  library function as it runs on a POSIX host (\<^verbatim>\<open>os.sep\<close> is \<open>/\<close>, there is no
  \<^verbatim>\<open>os.path.altsep\<close> and no reserved device name): characters outside ASCII are
  dropped, every \<open>/\<close> becomes a space, the words are joined with \<open>_\<close>, every character
  outside \<^verbatim>\<open>[A-Za-z0-9_.-]\<close> is deleted, and leading and trailing \<open>.\<close> and \<open>_\<close> are
  stripped. The Unicode decomposition the library runs first changes no ASCII character;
  of a character outside ASCII the library may keep a base letter (\<open>e\<close> for an accented
  \<open>e\<close>), where this definition keeps nothing. Either way the result is made of the
  characters \<^verbatim>\<open>[A-Za-z0-9_.-]\<close> and neither starts nor ends with \<open>.\<close> or \<open>_\<close>.
\<close>

definition is_ascii :: "char \<Rightarrow> bool" where
  "is_ascii c = ((of_char c :: nat) < 128)"

definition safe_char :: "char \<Rightarrow> bool" where
  "safe_char c =
     (c \<in> set ''ABCDEFGHIJKLMNOPQRSTUVWXYZabcdefghijklmnopqrstuvwxyz0123456789_.-'')"

definition secure_filename :: "string \<Rightarrow> string" where
  "secure_filename filename =
     (let ascii = filter is_ascii filename;
          spaced = map (\<lambda>c. if c = CHR ''/'' then CHR '' '' else c) ascii
      in strip ''._'' (filter safe_char (join ''_'' (split_ws spaced))))"

subsection \<open>Random identifier and clock\<close>

text \<open>
  \<^verbatim>\<open>uuid.uuid4()\<close> is a 128-bit number; \<^verbatim>\<open>str\<close> prints its 32 lower-case hexadecimal
  digits in groups of 8, 4, 4, 4 and 12.
\<close>

definition hex_char :: "nat \<Rightarrow> char" where
  "hex_char n = ''0123456789abcdef'' ! (n mod 16)"

definition hex32 :: "128 word \<Rightarrow> string" where
  "hex32 w = map (\<lambda>i. hex_char (unat (drop_bit (4 * i) w))) (rev [0..<32])"

definition uuid_str :: "128 word \<Rightarrow> string" where
  "uuid_str w =
     (let h = hex32 w
      in take 8 h @ ''-'' @ take 4 (drop 8 h) @ ''-'' @ take 4 (drop 12 h) @ ''-''
         @ take 4 (drop 16 h) @ ''-'' @ drop 20 h)"

record datetime =
  year :: nat
  month :: nat
  day :: nat
  hour :: nat
  minute :: nat
  second :: nat

definition pad2 :: "nat \<Rightarrow> string" where
  "pad2 n = [digit_char (n div 10), digit_char n]"

text \<open>\<^verbatim>\<open>strftime("%Y%m%d_%H%M%S")\<close>, for a year of four digits or more.\<close>

definition strftime_compact :: "datetime \<Rightarrow> string" where
  "strftime_compact d =
     show_nat (year d) @ pad2 (month d) @ pad2 (day d) @ ''_''
     @ pad2 (hour d) @ pad2 (minute d) @ pad2 (second d)"

text \<open>\<^verbatim>\<open>strftime("%Y-%m-%d %H:%M:%S")\<close>.\<close>

definition strftime_long :: "datetime \<Rightarrow> string" where
  "strftime_long d =
     show_nat (year d) @ ''-'' @ pad2 (month d) @ ''-'' @ pad2 (day d) @ '' ''
     @ pad2 (hour d) @ '':'' @ pad2 (minute d) @ '':'' @ pad2 (second d)"

subsection \<open>\<^verbatim>\<open>generate_unique_filename\<close>\<close>

text \<open>
  The two values the function draws from its environment, the UUID and the clock reading,
  are its first two arguments.
\<close>

definition generate_unique_filename :: "128 word \<Rightarrow> datetime \<Rightarrow> string \<Rightarrow> string" where
  "generate_unique_filename uuid4 now original_filename =
     (let ext = (if CHR ''.'' \<in> set original_filename
                 then lower (rsplit1 CHR ''.'' original_filename ! 1) else []);
          name = (if CHR ''.'' \<in> set original_filename
                  then rsplit1 CHR ''.'' original_filename ! 0 else original_filename);
          safe_name = secure_filename name;
          unique_id = take 8 (uuid_str uuid4);
          timestamp = strftime_compact now
      in unique_id @ ''_'' @ timestamp @ ''_'' @ safe_name @ ''.'' @ ext)"

subsection \<open>Floats\<close>

text \<open>
  The floats of the program are sizes in MiB: quotients of a byte count by \<open>2\<^sup>2\<^sup>0\<close>, their
  roundings to two decimals and sums of those. They are modelled by the rational numbers
  they stand for. \<^verbatim>\<open>round(x, ndigits)\<close> rounds to the nearest multiple of
  \<open>10\<^sup>-\<^sup>n\<close>, a tie going to the even neighbour.
\<close>

definition py_round :: "rat \<Rightarrow> nat \<Rightarrow> rat" where
  "py_round x ndigits =
     (let m = 10 ^ ndigits;
          s = x * of_nat m;
          f = \<lfloor>s\<rfloor>;
          d = s - of_int f;
          k = (if d < 1 / 2 then f else if 1 / 2 < d then f + 1 else if even f then f else f + 1)
      in of_int k / of_nat m)"

text \<open>
  \<^verbatim>\<open>str(x)\<close> of a float whose value is a whole number below \<open>10\<^sup>1\<^sup>6\<close>: its digits and
  \<open>.0\<close>. The one float the program prints, \<^verbatim>\<open>MAX_FILE_SIZE / (1024 * 1024)\<close>, is such a
  number.
\<close>

definition str_float :: "rat \<Rightarrow> string" where
  "str_float x = show_nat (nat \<lfloor>x\<rfloor>) @ ''.0''"

section \<open>The storage folder\<close>

text \<open>
  The state of the program is the directory \<^verbatim>\<open>uploads\<close>. An entry of the directory is
  a regular file, a subdirectory, or a symbolic link; a link carries the canonical path
  it resolves to and what is found there, if anything. The entries are kept in the order
  \<^verbatim>\<open>os.listdir\<close> returns them. \<open>root_real\<close> is the canonical path of the directory
  itself, \<open>readable\<close> says whether the directory can be listed, \<open>writable\<close> whether the
  process may create, overwrite and remove entries.
\<close>

type_synonym bytes = "8 word list"

datatype kind = File bytes | Dir

datatype entry = Plain kind | Link string "kind option"

record filesystem =
  root_real :: string
  entries :: "(string \<times> entry) list"
  dir_size :: nat
  readable :: bool
  writable :: bool

datatype exn = FileNotFoundError | IsADirectoryError | PermissionError

text \<open>\<^verbatim>\<open>os.path.join\<close> of two components (\<^verbatim>\<open>posixpath\<close>).\<close>

definition os_path_join :: "string \<Rightarrow> string \<Rightarrow> string" where
  "os_path_join a b =
     (if startswith b ''/'' then b
      else if a = [] \<or> last a = CHR ''/'' then a @ b
      else a @ ''/'' @ b)"

text \<open>The name a path denotes inside the storage folder, for a path of the form \<^verbatim>\<open>uploads/name\<close>.\<close>

definition entry_name :: "string \<Rightarrow> string option" where
  "entry_name path =
     (if startswith path (UPLOAD_FOLDER @ ''/'')
      then Some (drop (length UPLOAD_FOLDER + 1) path) else None)"

text \<open>What a path names, without following a link. Paths outside the folder name nothing.\<close>

definition lstat :: "filesystem \<Rightarrow> string \<Rightarrow> entry option" where
  "lstat fs path =
     (if path = UPLOAD_FOLDER then Some (Plain Dir)
      else case entry_name path of
             None \<Rightarrow> None
           | Some name \<Rightarrow>
               if name = [] \<or> name = ''.'' then Some (Plain Dir)
               else map_of (entries fs) name)"

text \<open>What a path names once links are followed.\<close>

definition stat :: "filesystem \<Rightarrow> string \<Rightarrow> kind option" where
  "stat fs path =
     (case lstat fs path of
        None \<Rightarrow> None
      | Some (Plain k) \<Rightarrow> Some k
      | Some (Link target t) \<Rightarrow> t)"

definition os_path_exists :: "filesystem \<Rightarrow> string \<Rightarrow> bool" where
  "os_path_exists fs path = (stat fs path \<noteq> None)"

definition os_path_isfile :: "filesystem \<Rightarrow> string \<Rightarrow> bool" where
  "os_path_isfile fs path = (case stat fs path of Some (File b) \<Rightarrow> True | _ \<Rightarrow> False)"

definition os_path_getsize :: "filesystem \<Rightarrow> string \<Rightarrow> exn + nat" where
  "os_path_getsize fs path =
     (case stat fs path of
        None \<Rightarrow> Inl FileNotFoundError
      | Some (File b) \<Rightarrow> Inr (length b)
      | Some Dir \<Rightarrow> Inr (dir_size fs))"

text \<open>
  \<^verbatim>\<open>os.path.realpath\<close>: the canonical path of the folder, of an entry of the folder, or
  of the target of a link.
\<close>

definition os_path_realpath :: "filesystem \<Rightarrow> string \<Rightarrow> string" where
  "os_path_realpath fs path =
     (if path = UPLOAD_FOLDER then root_real fs
      else case entry_name path of
             None \<Rightarrow> path
           | Some name \<Rightarrow>
               if name = [] \<or> name = ''.'' then root_real fs
               else (case map_of (entries fs) name of
                       Some (Link target t) \<Rightarrow> target
                     | _ \<Rightarrow> os_path_join (root_real fs) name))"

definition os_listdir :: "filesystem \<Rightarrow> string \<Rightarrow> exn + string list" where
  "os_listdir fs path =
     (if path \<noteq> UPLOAD_FOLDER then Inl FileNotFoundError
      else if readable fs then Inr (map fst (entries fs))
      else Inl PermissionError)"

text \<open>
  \<^verbatim>\<open>file.save(path)\<close> opens the path for writing and copies the stream: a new entry is
  created, a regular file is overwritten, a link is written through.
\<close>

definition file_save :: "filesystem \<Rightarrow> string \<Rightarrow> bytes \<Rightarrow> exn + filesystem" where
  "file_save fs path content =
     (case entry_name path of
        None \<Rightarrow> Inl FileNotFoundError
      | Some name \<Rightarrow>
          (case lstat fs path of
             Some (Plain Dir) \<Rightarrow> Inl IsADirectoryError
           | Some (Link target (Some Dir)) \<Rightarrow> Inl IsADirectoryError
           | Some (Link target t) \<Rightarrow>
               if writable fs
               then Inr (fs\<lparr>entries := AList.update name (Link target (Some (File content))) (entries fs)\<rparr>)
               else Inl PermissionError
           | _ \<Rightarrow>
               if writable fs
               then Inr (fs\<lparr>entries := AList.update name (Plain (File content)) (entries fs)\<rparr>)
               else Inl PermissionError))"

text \<open>\<^verbatim>\<open>os.remove\<close> unlinks a file or a link and refuses a directory.\<close>

definition os_remove :: "filesystem \<Rightarrow> string \<Rightarrow> exn + filesystem" where
  "os_remove fs path =
     (case lstat fs path of
        None \<Rightarrow> Inl FileNotFoundError
      | Some (Plain Dir) \<Rightarrow> Inl IsADirectoryError
      | Some e \<Rightarrow>
          (case entry_name path of
             None \<Rightarrow> Inl FileNotFoundError
           | Some name \<Rightarrow>
               if writable fs
               then Inr (fs\<lparr>entries := filter (\<lambda>(n, e'). n \<noteq> name) (entries fs)\<rparr>)
               else Inl PermissionError))"

text \<open>
  \<^verbatim>\<open>send_file\<close> reads the regular file the path leads to; the working directory is
  taken to be the directory of the application, so that it reads the path the handlers
  have checked.
\<close>

definition send_file :: "filesystem \<Rightarrow> string \<Rightarrow> exn + bytes" where
  "send_file fs path =
     (case stat fs path of
        None \<Rightarrow> Inl FileNotFoundError
      | Some Dir \<Rightarrow> Inl IsADirectoryError
      | Some (File b) \<Rightarrow> Inr b)"

definition get_file_size_mb :: "filesystem \<Rightarrow> string \<Rightarrow> exn + rat" where
  "get_file_size_mb fs filepath =
     (case os_path_getsize fs filepath of
        Inl e \<Rightarrow> Inl e
      | Inr size_bytes \<Rightarrow> Inr (py_round (of_nat size_bytes / (1024 * 1024)) 2))"

section \<open>Request handlers\<close>

text \<open>
  A handler returns a status code and a JSON body, or lets an exception escape
  (\<open>Inl\<close>). Of a body, the fields that vary are kept; constant success messages and
  the modification date of a listed file are left out.
\<close>

record file_item =
  item_filename :: string
  item_size_mb :: rat
  item_download_url :: string

datatype body =
    Error string
  | ErrorTypes string "string set"
  | UploadInfo string string rat string string
  | FileData string bytes
  | Listing nat rat "file_item list"
  | DeleteInfo string

type_synonym response = "nat \<times> body"

text \<open>The uploaded part \<^verbatim>\<open>request.files['file']\<close>: its file name and its stream.\<close>

record file_storage =
  file_name :: string
  file_stream :: bytes

subsection \<open>\<^verbatim>\<open>upload\<close>\<close>

text \<open>
  The arguments are the UUID drawn by \<^verbatim>\<open>generate_unique_filename\<close>, the two readings
  of the clock, the storage folder, and \<^verbatim>\<open>request.files.get('file')\<close>. The fields of
  the success body are \<^verbatim>\<open>original_name\<close>, \<^verbatim>\<open>saved_as\<close>, \<^verbatim>\<open>size_mb\<close>, \<^verbatim>\<open>uploaded_at\<close>
  and \<^verbatim>\<open>download_url\<close>.
\<close>

definition upload ::
  "128 word \<Rightarrow> datetime \<Rightarrow> datetime \<Rightarrow> filesystem \<Rightarrow> file_storage option
     \<Rightarrow> filesystem \<times> (exn + response)" where
  "upload uuid4 now1 now2 fs req =
     (case req of
        None \<Rightarrow> (fs, Inr (400, Error ''No file provided''))
      | Some file \<Rightarrow>
          if file_name file = [] then (fs, Inr (400, Error ''No file selected''))
          else
            let file_size = length (file_stream file) in
            if file_size > MAX_FILE_SIZE
            then
              let max_mb = of_nat MAX_FILE_SIZE / (1024 * 1024)
              in (fs, Inr (413, Error (''File too large! Maximum '' @ str_float max_mb
                                        @ ''MB allowed'')))
            else if \<not> allowed_file (file_name file)
            then (fs, Inr (400, ErrorTypes ''File type not allowed'' ALLOWED_EXTENSIONS))
            else
              let unique_filename = generate_unique_filename uuid4 now1 (file_name file);
                  filepath = os_path_join UPLOAD_FOLDER unique_filename
              in (case file_save fs filepath (file_stream file) of
                    Inl e \<Rightarrow> (fs, Inl e)
                  | Inr fs' \<Rightarrow>
                      (case get_file_size_mb fs' filepath of
                         Inl e \<Rightarrow> (fs', Inl e)
                       | Inr file_size_mb \<Rightarrow>
                           (fs', Inr (200, UploadInfo (file_name file) unique_filename
                                             file_size_mb (strftime_long now2)
                                             (''/download/'' @ unique_filename))))))"

subsection \<open>\<^verbatim>\<open>download\<close>\<close>

definition download :: "filesystem \<Rightarrow> string \<Rightarrow> exn + response" where
  "download fs name =
     (let filename = secure_filename name;
          filepath = os_path_join UPLOAD_FOLDER filename;
          real_path = os_path_realpath fs filepath;
          upload_folder_real = os_path_realpath fs UPLOAD_FOLDER
      in if \<not> startswith real_path upload_folder_real
         then Inr (403, Error ''Access denied'')
         else if \<not> os_path_exists fs filepath
         then Inr (404, Error ''File not found'')
         else (case send_file fs filepath of
                 Inl e \<Rightarrow> Inl e
               | Inr content \<Rightarrow> Inr (200, FileData filename content)))"

subsection \<open>\<^verbatim>\<open>files\<close>\<close>

text \<open>
  The loop over the directory listing carries \<^verbatim>\<open>files_list\<close> and \<^verbatim>\<open>total_size_mb\<close>.
\<close>

fun files_loop ::
  "filesystem \<Rightarrow> string list \<Rightarrow> file_item list \<times> rat \<Rightarrow> exn + (file_item list \<times> rat)" where
  "files_loop fs [] acc = Inr acc"
| "files_loop fs (filename # rest) (files_list, total_size_mb) =
     (let filepath = os_path_join UPLOAD_FOLDER filename
      in if \<not> os_path_isfile fs filepath then files_loop fs rest (files_list, total_size_mb)
         else (case os_path_getsize fs filepath of
                 Inl e \<Rightarrow> Inl e
               | Inr file_size \<Rightarrow>
                   let file_size_mb = py_round (of_nat file_size / (1024 * 1024)) 2
                   in files_loop fs rest
                        (files_list @ [\<lparr>item_filename = filename,
                                        item_size_mb = file_size_mb,
                                        item_download_url = ''/download/'' @ filename\<rparr>],
                         total_size_mb + file_size_mb)))"

definition files :: "filesystem \<Rightarrow> exn + response" where
  "files fs =
     (case os_listdir fs UPLOAD_FOLDER of
        Inl e \<Rightarrow> Inr (500, Error ''Cannot read files'')
      | Inr all_files \<Rightarrow>
          (case files_loop fs all_files ([], 0) of
             Inl e \<Rightarrow> Inl e
           | Inr (files_list, total_size_mb) \<Rightarrow>
               Inr (200, Listing (length files_list) (py_round total_size_mb 2) files_list)))"

text \<open>
  For the statement of what \<^verbatim>\<open>files\<close> reports: the names of a listing that lead to a
  regular file, in the order of the listing, each with the size of the file in bytes.
\<close>

fun sized_files :: "filesystem \<Rightarrow> string list \<Rightarrow> (string \<times> nat) list" where
  "sized_files fs [] = []"
| "sized_files fs (filename # rest) =
     (case stat fs (os_path_join UPLOAD_FOLDER filename) of
        Some (File b) \<Rightarrow> (filename, length b) # sized_files fs rest
      | _ \<Rightarrow> sized_files fs rest)"

subsection \<open>\<^verbatim>\<open>delete\<close>\<close>

definition delete :: "filesystem \<Rightarrow> string \<Rightarrow> filesystem \<times> (exn + response)" where
  "delete fs name =
     (let filename = secure_filename name;
          filepath = os_path_join UPLOAD_FOLDER filename;
          real_path = os_path_realpath fs filepath;
          upload_folder_real = os_path_realpath fs UPLOAD_FOLDER
      in if \<not> startswith real_path upload_folder_real
         then (fs, Inr (403, Error ''Access denied''))
         else if \<not> os_path_exists fs filepath
         then (fs, Inr (404, Error ''File not found''))
         else (case os_remove fs filepath of
                 Inr fs' \<Rightarrow> (fs', Inr (200, DeleteInfo filename))
               | Inl e \<Rightarrow> (fs, Inr (500, Error ''Failed to delete file''))))"

section \<open>Properties of the string functions\<close>



lemma safe_char_not_sep: "safe_char c \<Longrightarrow> c \<noteq> CHR ''/'' \<and> c \<noteq> CHR 0x5C"
  by (auto simp: safe_char_def)

lemma set_strip: "set (strip chars s) \<subseteq> set s"
proof -
  have "set (strip chars s) \<subseteq> set (dropWhile (\<lambda>c. c \<in> set chars) s)"
    unfolding strip_def using set_dropWhileD by fastforce
  also have "\<dots> \<subseteq> set s"
    using set_dropWhileD by fastforce
  finally show ?thesis .
qed

lemma secure_filename_safe: "c \<in> set (secure_filename name) \<Longrightarrow> safe_char c"
proof -
  assume "c \<in> set (secure_filename name)"
  then have "c \<in> set (filter safe_char (join ''_'' (split_ws
      (map (\<lambda>c. if c = CHR ''/'' then CHR '' '' else c) (filter is_ascii name)))))"
    using set_strip unfolding secure_filename_def Let_def by blast
  then show "safe_char c" by simp
qed




section \<open>Extension policy\<close>

lemma rsplit1_ext:
  "CHR ''.'' \<in> set filename \<Longrightarrow>
     rsplit1 CHR ''.'' filename ! 1 = rev (takeWhile (\<lambda>x. x \<noteq> CHR ''.'') (rev filename))"
  by (simp add: rsplit1_def)

text \<open>
  C4. A file name whose lower-cased last extension is in the deny-set is rejected by
  \<^verbatim>\<open>allowed_file\<close>, whatever the allow-set holds: the deny-set is tested first and
  the function returns at once. The second conjunct is the function with the sets of the
  module.
\<close>

theorem C4_deny_set_first:
  assumes "CHR ''.'' \<in> set filename"
    and "lower (rsplit1 CHR ''.'' filename ! 1) \<in> DANGEROUS_EXTENSIONS"
  shows "\<not> allowed_file_with allowed DANGEROUS_EXTENSIONS filename \<and> \<not> allowed_file filename"
  using assms by (simp add: allowed_file_with_def allowed_file_def Let_def)

theorem C4_deny_set_first_witness:
  "CHR ''.'' \<in> set ''Tool.tar.EXE''
   \<and> lower (rsplit1 CHR ''.'' ''Tool.tar.EXE'' ! 1) = ''exe''
   \<and> ''exe'' \<in> DANGEROUS_EXTENSIONS
   \<and> \<not> allowed_file_with {''exe'', ''png''} DANGEROUS_EXTENSIONS ''Tool.tar.EXE''
   \<and> \<not> allowed_file ''Tool.tar.EXE''"
proof -
  have dot: "CHR ''.'' \<in> set ''Tool.tar.EXE''"
    by simp
  have ext: "lower (rsplit1 CHR ''.'' ''Tool.tar.EXE'' ! 1) = ''exe''"
    by (simp add: rsplit1_def lower_def lower_char_def)
  have deny: "''exe'' \<in> DANGEROUS_EXTENSIONS"
    by (simp add: DANGEROUS_EXTENSIONS_def)
  from ext deny have "lower (rsplit1 CHR ''.'' ''Tool.tar.EXE'' ! 1) \<in> DANGEROUS_EXTENSIONS"
    by simp
  from C4_deny_set_first [OF dot this, of "{''exe'', ''png''}"] dot ext deny
  show ?thesis by simp
qed

section \<open>Properties of the name generator\<close>

lemma hex_char_safe: "safe_char (hex_char n)"
proof -
  have "hex_char n \<in> set ''0123456789abcdef''"
    unfolding hex_char_def by (rule nth_mem) simp
  then show ?thesis by (auto simp: safe_char_def)
qed

lemma hex_char_not_dot: "hex_char n \<notin> set ''._''"
proof -
  have "hex_char n \<in> set ''0123456789abcdef''"
    unfolding hex_char_def by (rule nth_mem) simp
  then show ?thesis by auto
qed

lemma length_hex32: "length (hex32 w) = 32"
  by (simp add: hex32_def)

lemma unique_id_eq: "take 8 (uuid_str w) = take 8 (hex32 w)"
  by (simp add: uuid_str_def Let_def length_hex32)

lemma unique_id_length: "length (take 8 (uuid_str w)) = 8"
  by (simp add: unique_id_eq length_hex32)

lemma unique_id_safe: "c \<in> set (take 8 (uuid_str w)) \<Longrightarrow> safe_char c"
proof -
  assume "c \<in> set (take 8 (uuid_str w))"
  then have "c \<in> set (hex32 w)"
    unfolding unique_id_eq by (rule in_set_takeD)
  then show ?thesis by (auto simp: hex32_def hex_char_safe)
qed

lemma unique_id_hd: "hd (take 8 (uuid_str w)) \<notin> set ''._''"
proof -
  have "take 8 (uuid_str w) \<noteq> []"
    using unique_id_length [of w] by auto
  then have "hd (take 8 (uuid_str w)) \<in> set (take 8 (hex32 w))"
    unfolding unique_id_eq by (rule hd_in_set)
  then have "hd (take 8 (uuid_str w)) \<in> set (hex32 w)"
    by (rule in_set_takeD)
  then obtain n where "hd (take 8 (uuid_str w)) = hex_char n"
    by (auto simp: hex32_def)
  then show ?thesis
    using hex_char_not_dot [of n] by simp
qed

lemma digit_char_safe: "safe_char (digit_char n)"
proof -
  have "digit_char n \<in> set ''0123456789''"
    unfolding digit_char_def by (rule nth_mem) simp
  then show ?thesis by (auto simp: safe_char_def)
qed

lemma show_nat_safe: "c \<in> set (show_nat n) \<Longrightarrow> safe_char c"
proof (induction n rule: show_nat.induct)
  case (1 n)
  then show ?case
    by (subst (asm) (2) show_nat.simps) (auto simp: digit_char_safe split: if_splits)
qed

lemma timestamp_safe: "c \<in> set (strftime_compact d) \<Longrightarrow> safe_char c"
  by (auto simp: strftime_compact_def pad2_def digit_char_safe show_nat_safe)
     (simp add: safe_char_def)

lemma allowed_ext:
  assumes "allowed_file filename"
  shows "CHR ''.'' \<in> set filename"
    and "lower (rsplit1 CHR ''.'' filename ! 1) \<in> ALLOWED_EXTENSIONS"
  using assms by (auto simp: allowed_file_def allowed_file_with_def Let_def split: if_splits)

lemma allowed_ext_safe:
  assumes "ext \<in> ALLOWED_EXTENSIONS"
  shows "\<forall>c \<in> set ext. safe_char c" and "ext \<noteq> []" and "last ext \<notin> set ''._''"
  using assms by (auto simp: ALLOWED_EXTENSIONS_def safe_char_def)

text \<open>The shape of a generated name for an accepted file name.\<close>

lemma generated_name:
  assumes "allowed_file filename"
  shows "\<exists>safe_name ext. ext \<in> ALLOWED_EXTENSIONS \<and> (\<forall>c \<in> set safe_name. safe_char c) \<and>
           generate_unique_filename uuid4 now filename =
             take 8 (uuid_str uuid4) @ ''_'' @ strftime_compact now @ ''_'' @ safe_name @ ''.'' @ ext"
  using allowed_ext [OF assms] secure_filename_safe
  by (auto simp: generate_unique_filename_def Let_def)

lemma generated_name_safe:
  assumes "allowed_file filename"
  shows "\<forall>c \<in> set (generate_unique_filename uuid4 now filename). safe_char c"
proof -
  obtain safe_name ext where e: "ext \<in> ALLOWED_EXTENSIONS"
    and s: "\<forall>c \<in> set safe_name. safe_char c"
    and g: "generate_unique_filename uuid4 now filename =
             take 8 (uuid_str uuid4) @ ''_'' @ strftime_compact now @ ''_'' @ safe_name @ ''.'' @ ext"
    using generated_name [OF assms] by blast
  have u: "safe_char CHR ''_''" and d: "safe_char CHR ''.''"
    by (simp_all add: safe_char_def)
  show ?thesis
    unfolding g using unique_id_safe timestamp_safe s allowed_ext_safe(1) [OF e] u d
    by auto
qed

lemma generated_name_ends:
  assumes "allowed_file filename"
  shows "generate_unique_filename uuid4 now filename \<noteq> []"
    and "hd (generate_unique_filename uuid4 now filename) \<notin> set ''._''"
    and "last (generate_unique_filename uuid4 now filename) \<notin> set ''._''"
proof -
  obtain safe_name ext where e: "ext \<in> ALLOWED_EXTENSIONS"
    and g: "generate_unique_filename uuid4 now filename =
             take 8 (uuid_str uuid4) @ ''_'' @ strftime_compact now @ ''_'' @ safe_name @ ''.'' @ ext"
    using generated_name [OF assms] by blast
  have n: "take 8 (uuid_str uuid4) \<noteq> []"
    using unique_id_length [of uuid4] by auto
  show "generate_unique_filename uuid4 now filename \<noteq> []"
    unfolding g by simp
  show "hd (generate_unique_filename uuid4 now filename) \<notin> set ''._''"
    unfolding g using n unique_id_hd [of uuid4] by simp
  show "last (generate_unique_filename uuid4 now filename) \<notin> set ''._''"
    unfolding g using allowed_ext_safe(2,3) [OF e] by simp
qed

section \<open>The generated name\<close>

lemma rev_upt_32:
  "rev [0..<32] = [31, 30, 29, 28, 27, 26, 25, 24, 23, 22, 21, 20, 19, 18, 17, 16,
                   15, 14, 13, 12, 11, 10, 9, 8, 7, 6, 5, 4, 3, 2, 1, 0 :: nat]"
  by (simp add: upt_rec)

lemmas string_eval =
  secure_filename_def is_ascii_def split_ws_def is_space_def safe_char_def strip_def
  rsplit1_def lower_def lower_char_def

lemmas name_eval =
  generate_unique_filename_def uuid_str_def hex32_def rev_upt_32 hex_char_def
  strftime_compact_def pad2_def digit_char_def show_nat.simps Let_def

text \<open>
  C9. For an original file name without a dot the generator returns a name, and the name
  is the identifier, the timestamp and the sanitised name followed by a dot and an empty
  extension: it ends with a dot.
\<close>

theorem C9_no_dot_trailing_dot:
  assumes "CHR ''.'' \<notin> set original_filename"
  shows "generate_unique_filename uuid4 now original_filename =
           take 8 (uuid_str uuid4) @ ''_'' @ strftime_compact now @ ''_''
           @ secure_filename original_filename @ ''.''
         \<and> last (generate_unique_filename uuid4 now original_filename) = CHR ''.''"
  using assms by (simp add: generate_unique_filename_def Let_def)

theorem C9_no_dot_trailing_dot_witness:
  "CHR ''.'' \<notin> set ''READ ME''
   \<and> generate_unique_filename 0x1234abcd000000000000000000000000
        \<lparr>year = 2024, month = 11, day = 7, hour = 9, minute = 5, second = 3\<rparr> ''READ ME''
       = ''1234abcd_20241107_090503_READ_ME.''
   \<and> last (generate_unique_filename 0x1234abcd000000000000000000000000
        \<lparr>year = 2024, month = 11, day = 7, hour = 9, minute = 5, second = 3\<rparr> ''READ ME'')
       = CHR ''.''"
proof -
  have nodot: "CHR ''.'' \<notin> set ''READ ME''"
    by simp
  have id: "take 8 (uuid_str (0x1234abcd000000000000000000000000 :: 128 word)) = ''1234abcd''"
    by (simp add: name_eval)
  have ts: "strftime_compact
              \<lparr>year = 2024, month = 11, day = 7, hour = 9, minute = 5, second = 3\<rparr>
            = ''20241107_090503''"
    by (simp add: name_eval)
  have sf: "secure_filename ''READ ME'' = ''READ_ME''"
    by (simp add: string_eval)
  from C9_no_dot_trailing_dot [OF nodot, of "0x1234abcd000000000000000000000000"
      "\<lparr>year = 2024, month = 11, day = 7, hour = 9, minute = 5, second = 3\<rparr>"]
  show ?thesis
    unfolding id ts sf by simp
qed

text \<open>
  C6, as the code has it. For an original file name that \<^verbatim>\<open>allowed_file\<close> accepts, the
  generated name has no \<open>/\<close> and no backslash, is not empty, and is a single path
  component other than \<open>.\<close> and \<open>..\<close>: joined onto the storage folder it names a direct
  child of the folder. Two dots in a row may remain inside the component.
\<close>

theorem C6_generated_name_single_component:
  assumes "allowed_file original_filename"
  shows "CHR ''/'' \<notin> set (generate_unique_filename uuid4 now original_filename)
         \<and> CHR 0x5C \<notin> set (generate_unique_filename uuid4 now original_filename)
         \<and> generate_unique_filename uuid4 now original_filename \<noteq> []
         \<and> generate_unique_filename uuid4 now original_filename \<noteq> ''.''
         \<and> generate_unique_filename uuid4 now original_filename \<noteq> ''..''
         \<and> os_path_join UPLOAD_FOLDER (generate_unique_filename uuid4 now original_filename)
             = UPLOAD_FOLDER @ ''/'' @ generate_unique_filename uuid4 now original_filename"
proof -
  let ?s = "generate_unique_filename uuid4 now original_filename"
  have safe: "\<forall>c \<in> set ?s. safe_char c"
    by (rule generated_name_safe [OF assms])
  have ne: "?s \<noteq> []" and h: "hd ?s \<notin> set ''._''"
    using generated_name_ends [OF assms] by blast+
  have 1: "CHR ''/'' \<notin> set ?s" "CHR 0x5C \<notin> set ?s"
    using safe safe_char_not_sep by blast+
  have 2: "?s \<noteq> ''.''" "?s \<noteq> ''..''"
    using h by auto
  have "hd ?s \<noteq> CHR ''/''"
    using 1(1) ne hd_in_set by metis
  then have 3: "os_path_join UPLOAD_FOLDER ?s = UPLOAD_FOLDER @ ''/'' @ ?s"
    using ne by (cases ?s) (simp_all add: os_path_join_def startswith_def UPLOAD_FOLDER_def)
  show ?thesis using 1 2 3 ne by blast
qed

theorem C6_generated_name_single_component_witness:
  "allowed_file ''my photo.PNG''
   \<and> generate_unique_filename 0x1234abcd000000000000000000000000
        \<lparr>year = 2024, month = 11, day = 7, hour = 9, minute = 5, second = 3\<rparr> ''my photo.PNG''
       = ''1234abcd_20241107_090503_my_photo.png''
   \<and> os_path_join UPLOAD_FOLDER ''1234abcd_20241107_090503_my_photo.png''
       = ''uploads/1234abcd_20241107_090503_my_photo.png''"
proof -
  have a: "allowed_file ''my photo.PNG''"
    by (simp add: allowed_file_def allowed_file_with_def string_eval
        ALLOWED_EXTENSIONS_def DANGEROUS_EXTENSIONS_def)
  have g: "generate_unique_filename 0x1234abcd000000000000000000000000
        \<lparr>year = 2024, month = 11, day = 7, hour = 9, minute = 5, second = 3\<rparr> ''my photo.PNG''
       = ''1234abcd_20241107_090503_my_photo.png''"
    by (simp add: name_eval string_eval)
  from C6_generated_name_single_component [OF a, of "0x1234abcd000000000000000000000000"
      "\<lparr>year = 2024, month = 11, day = 7, hour = 9, minute = 5, second = 3\<rparr>"]
  show ?thesis
    unfolding g using a by (simp add: UPLOAD_FOLDER_def)
qed

text \<open>
  The claim as the specification words it fails: \<^verbatim>\<open>a..b.png\<close> is accepted and its
  generated name keeps the two dots.
\<close>

theorem C6_dotdot_counterexample:
  "allowed_file ''a..b.png''
   \<and> generate_unique_filename 0x1234abcd000000000000000000000000
        \<lparr>year = 2024, month = 11, day = 7, hour = 9, minute = 5, second = 3\<rparr> ''a..b.png''
       = ''1234abcd_20241107_090503_a'' @ ''..'' @ ''b.png''"
  by (simp add: allowed_file_def allowed_file_with_def ALLOWED_EXTENSIONS_def
      DANGEROUS_EXTENSIONS_def name_eval string_eval)

section \<open>Path resolution and deletion\<close>

lemma strip_hd:
  assumes "strip chars s \<noteq> []"
  shows "hd (strip chars s) \<notin> set chars"
proof -
  let ?P = "\<lambda>c. c \<in> set chars"
  let ?ys = "dropWhile ?P s"
  have "takeWhile ?P (rev ?ys) @ dropWhile ?P (rev ?ys) = rev ?ys"
    by (rule takeWhile_dropWhile_id)
  then have "rev (takeWhile ?P (rev ?ys) @ dropWhile ?P (rev ?ys)) = rev (rev ?ys)"
    by (rule arg_cong)
  then have split: "strip chars s @ rev (takeWhile ?P (rev ?ys)) = ?ys"
    by (simp only: strip_def rev_append rev_rev_ident)
  with assms have ne: "?ys \<noteq> []"
    by (metis append_is_Nil_conv)
  from split assms have "hd ?ys = hd (strip chars s)"
    by (metis hd_append2)
  moreover have "\<not> ?P (hd ?ys)"
    using ne by (rule hd_dropWhile)
  ultimately show ?thesis by simp
qed

lemma secure_filename_hd:
  "secure_filename name \<noteq> [] \<Longrightarrow> hd (secure_filename name) \<notin> set ''._''"
  unfolding secure_filename_def Let_def by (rule strip_hd)

lemma secure_filename_no_slash: "CHR ''/'' \<notin> set (secure_filename name)"
  using secure_filename_safe safe_char_not_sep by blast

lemma secure_filename_not_dots:
  "secure_filename name \<noteq> ''.''" "secure_filename name \<noteq> ''..''"
  using secure_filename_hd [of name] by auto

text \<open>A name without a leading \<open>/\<close> is joined onto the folder as a child of it.\<close>

lemma join_upload:
  assumes "CHR ''/'' \<notin> set s"
  shows "os_path_join UPLOAD_FOLDER s = ''uploads/'' @ s"
  using assms by (cases s) (auto simp: os_path_join_def startswith_def UPLOAD_FOLDER_def)


lemma lstat_child:
  assumes "s \<noteq> []" "s \<noteq> ''.''"
  shows "lstat fs (''uploads/'' @ s) = map_of (entries fs) s"
  using assms by (simp add: lstat_def entry_name_def startswith_def UPLOAD_FOLDER_def)

lemma realpath_child:
  assumes "s \<noteq> []" "s \<noteq> ''.''"
  shows "os_path_realpath fs (''uploads/'' @ s) =
           (case map_of (entries fs) s of
              Some (Link target t) \<Rightarrow> target
            | _ \<Rightarrow> os_path_join (root_real fs) s)"
  using assms by (simp add: os_path_realpath_def entry_name_def startswith_def UPLOAD_FOLDER_def)

lemma realpath_root: "os_path_realpath fs UPLOAD_FOLDER = root_real fs"
  by (simp add: os_path_realpath_def)

lemma startswith_join:
  assumes "CHR ''/'' \<notin> set s"
  shows "startswith (os_path_join r s) r"
  using assms by (cases s) (auto simp: os_path_join_def startswith_def)

text \<open>A sanitised name that names no entry of the folder: the two checks of the handlers.\<close>

lemma missing_entry:
  assumes "secure_filename name \<noteq> []"
    and "map_of (entries fs) (secure_filename name) = None"
  shows "startswith (os_path_realpath fs (os_path_join UPLOAD_FOLDER (secure_filename name)))
           (os_path_realpath fs UPLOAD_FOLDER)"
    and "\<not> os_path_exists fs (os_path_join UPLOAD_FOLDER (secure_filename name))"
proof -
  let ?s = "secure_filename name"
  have j: "os_path_join UPLOAD_FOLDER ?s = ''uploads/'' @ ?s"
    by (rule join_upload [OF secure_filename_no_slash])
  have r: "os_path_realpath fs (''uploads/'' @ ?s) = os_path_join (root_real fs) ?s"
    using realpath_child [OF assms(1) secure_filename_not_dots(1), of fs] assms(2) by simp
  show "startswith (os_path_realpath fs (os_path_join UPLOAD_FOLDER ?s))
          (os_path_realpath fs UPLOAD_FOLDER)"
    unfolding j r realpath_root by (rule startswith_join [OF secure_filename_no_slash])
  show "\<not> os_path_exists fs (os_path_join UPLOAD_FOLDER ?s)"
    unfolding j os_path_exists_def stat_def
    using lstat_child [OF assms(1) secure_filename_not_dots(1), of fs] assms(2) by simp
qed

lemmas fs_eval =
  os_path_join_def startswith_def UPLOAD_FOLDER_def entry_name_def lstat_def stat_def
  os_path_exists_def os_path_isfile_def os_path_getsize_def os_path_realpath_def
  os_listdir_def file_save_def os_remove_def send_file_def

lemma startswith_prefix: "startswith s (p @ q) \<Longrightarrow> startswith s p"
proof -
  assume "startswith s (p @ q)"
  then have "take (length p) (take (length p + length q) s) = take (length p) (p @ q)"
    by (simp add: startswith_def)
  then show ?thesis
    by (simp add: startswith_def min_def)
qed

text \<open>Containment at a directory boundary implies the comparison of strings the code makes.\<close>

lemma within_root_startswith:
  assumes "rp = rt \<or> startswith rp (os_path_join rt [])"
  shows "startswith rp rt"
proof -
  have "os_path_join rt [] = rt @ [] \<or> os_path_join rt [] = rt @ ''/''"
    by (simp add: os_path_join_def startswith_def)
  then have "startswith rp (os_path_join rt []) \<Longrightarrow> startswith rp rt"
    using startswith_prefix by metis
  moreover have "startswith rt rt"
    by (simp add: startswith_def)
  ultimately show ?thesis
    using assms by blast
qed



text \<open>
  C7, as the specification words it, fails. Here the entry \<^verbatim>\<open>x.pdf\<close> is a link whose
  target \<^verbatim>\<open>/tmp/none\<close> does not exist: the path does not exist, the containment check
  comes first, and \<^verbatim>\<open>delete\<close> answers 403.
\<close>

theorem C7_dangling_link_counterexample:
  "\<not> os_path_exists \<lparr>root_real = ''/srv/uploads'',
          entries = [(''x.pdf'', Link ''/tmp/none'' None)],
          dir_size = 4096, readable = True, writable = True\<rparr>
        (os_path_join UPLOAD_FOLDER (secure_filename ''x.pdf''))
   \<and> delete \<lparr>root_real = ''/srv/uploads'',
          entries = [(''x.pdf'', Link ''/tmp/none'' None)],
          dir_size = 4096, readable = True, writable = True\<rparr> ''x.pdf''
       = (\<lparr>root_real = ''/srv/uploads'',
            entries = [(''x.pdf'', Link ''/tmp/none'' None)],
            dir_size = 4096, readable = True, writable = True\<rparr>,
          Inr (403, Error ''Access denied''))"
  by (simp add: delete_def string_eval fs_eval)

text \<open>
  C7, as the code has it. \<^verbatim>\<open>delete\<close> answers 404 and leaves the folder as it was
  when the sanitised name is not empty and names no entry of the folder, and when the
  canonical path of the candidate lies within the canonical storage folder, at a
  directory boundary, and the candidate does not exist. For every name \<^verbatim>\<open>delete\<close>
  returns a response: no exception escapes it.
\<close>

theorem C7_delete_missing_not_found:
  "(secure_filename name \<noteq> [] \<and> map_of (entries fs) (secure_filename name) = None
      \<longrightarrow> delete fs name = (fs, Inr (404, Error ''File not found'')))
   \<and> ((os_path_realpath fs (os_path_join UPLOAD_FOLDER (secure_filename name))
          = os_path_realpath fs UPLOAD_FOLDER
        \<or> startswith (os_path_realpath fs (os_path_join UPLOAD_FOLDER (secure_filename name)))
             (os_path_join (os_path_realpath fs UPLOAD_FOLDER) []))
       \<and> \<not> os_path_exists fs (os_path_join UPLOAD_FOLDER (secure_filename name))
      \<longrightarrow> delete fs name = (fs, Inr (404, Error ''File not found'')))
   \<and> (\<exists>r. snd (delete fs name) = Inr r)"
proof (intro conjI impI)
  assume "secure_filename name \<noteq> [] \<and> map_of (entries fs) (secure_filename name) = None"
  then show "delete fs name = (fs, Inr (404, Error ''File not found''))"
    using missing_entry [of name fs] by (simp add: delete_def Let_def)
next
  assume a: "(os_path_realpath fs (os_path_join UPLOAD_FOLDER (secure_filename name))
          = os_path_realpath fs UPLOAD_FOLDER
        \<or> startswith (os_path_realpath fs (os_path_join UPLOAD_FOLDER (secure_filename name)))
             (os_path_join (os_path_realpath fs UPLOAD_FOLDER) []))
       \<and> \<not> os_path_exists fs (os_path_join UPLOAD_FOLDER (secure_filename name))"
  then have "startswith (os_path_realpath fs (os_path_join UPLOAD_FOLDER (secure_filename name)))
               (os_path_realpath fs UPLOAD_FOLDER)"
    using within_root_startswith by blast
  with a show "delete fs name = (fs, Inr (404, Error ''File not found''))"
    by (simp add: delete_def Let_def)
next
  show "\<exists>r. snd (delete fs name) = Inr r"
    by (simp add: delete_def Let_def split: sum.split)
qed

theorem C7_delete_missing_not_found_witness:
  "secure_filename ''gone.pdf'' \<noteq> []
   \<and> map_of (entries \<lparr>root_real = ''/srv/uploads'',
         entries = [(''kept.pdf'', Plain (File [1, 2, 3]))],
         dir_size = 4096, readable = True, writable = True\<rparr>) (secure_filename ''gone.pdf'') = None
   \<and> startswith (os_path_realpath \<lparr>root_real = ''/srv/uploads'',
         entries = [(''kept.pdf'', Plain (File [1, 2, 3]))],
         dir_size = 4096, readable = True, writable = True\<rparr>
           (os_path_join UPLOAD_FOLDER (secure_filename ''gone.pdf'')))
        (os_path_join (os_path_realpath \<lparr>root_real = ''/srv/uploads'',
         entries = [(''kept.pdf'', Plain (File [1, 2, 3]))],
         dir_size = 4096, readable = True, writable = True\<rparr> UPLOAD_FOLDER) [])
   \<and> \<not> os_path_exists \<lparr>root_real = ''/srv/uploads'',
         entries = [(''kept.pdf'', Plain (File [1, 2, 3]))],
         dir_size = 4096, readable = True, writable = True\<rparr>
           (os_path_join UPLOAD_FOLDER (secure_filename ''gone.pdf''))
   \<and> delete \<lparr>root_real = ''/srv/uploads'',
         entries = [(''kept.pdf'', Plain (File [1, 2, 3]))],
         dir_size = 4096, readable = True, writable = True\<rparr> ''gone.pdf''
       = (\<lparr>root_real = ''/srv/uploads'',
           entries = [(''kept.pdf'', Plain (File [1, 2, 3]))],
           dir_size = 4096, readable = True, writable = True\<rparr>,
          Inr (404, Error ''File not found''))"
proof -
  have s: "secure_filename ''gone.pdf'' = ''gone.pdf''"
    by (simp add: string_eval)
  from C7_delete_missing_not_found [of "''gone.pdf''" "\<lparr>root_real = ''/srv/uploads'',
         entries = [(''kept.pdf'', Plain (File [1, 2, 3]))],
         dir_size = 4096, readable = True, writable = True\<rparr>"]
  show ?thesis
    unfolding s by (simp add: fs_eval)
qed

section \<open>Traversal and containment\<close>




text \<open>
  C1. The containment check of \<^verbatim>\<open>download\<close> and \<^verbatim>\<open>delete\<close> is a comparison of strings.
  Here the entry \<^verbatim>\<open>report.pdf\<close> is a link whose canonical path lies in
  \<^verbatim>\<open>/data/uploads2\<close>, a sibling of the storage folder \<^verbatim>\<open>/data/uploads\<close>: the check
  passes, the file is served, and the entry is removed on request, where the
  specification asks for 403.
\<close>

theorem C1_sibling_directory_passes:
  "startswith ''/data/uploads2/report.pdf'' ''/data/uploads''
   \<and> download \<lparr>root_real = ''/data/uploads'',
         entries = [(''report.pdf'', Link ''/data/uploads2/report.pdf'' (Some (File [1, 2, 3])))],
         dir_size = 4096, readable = True, writable = True\<rparr> ''report.pdf''
       = Inr (200, FileData ''report.pdf'' [1, 2, 3])
   \<and> delete \<lparr>root_real = ''/data/uploads'',
         entries = [(''report.pdf'', Link ''/data/uploads2/report.pdf'' (Some (File [1, 2, 3])))],
         dir_size = 4096, readable = True, writable = True\<rparr> ''report.pdf''
       = (\<lparr>root_real = ''/data/uploads'', entries = [],
           dir_size = 4096, readable = True, writable = True\<rparr>,
          Inr (200, DeleteInfo ''report.pdf''))"
  by (simp add: download_def delete_def string_eval fs_eval)

section \<open>Upload checks\<close>

lemma show_nat_5: "show_nat 5 = ''5''"
  by (simp add: show_nat.simps digit_char_def)

lemma max_mb_str: "str_float (of_nat MAX_FILE_SIZE / (1024 * 1024)) = ''5.0''"
  by (simp add: str_float_def MAX_FILE_SIZE_def show_nat_5)

lemma max_mb_str_num: "str_float (of_nat MAX_FILE_SIZE / 1048576) = ''5.0''"
  using max_mb_str by simp

text \<open>
  C3. For a request that carries a file with a file name, \<^verbatim>\<open>upload\<close> answers 413
  exactly when the stream is longer than \<^verbatim>\<open>MAX_FILE_SIZE\<close>, which is 5242880 bytes. The
  answer is given with the storage folder untouched, and its message prints the limit in
  MiB, \<open>5.0\<close>.
\<close>

theorem C3_size_exceeded:
  assumes "file_name file \<noteq> []"
  shows "MAX_FILE_SIZE = 5242880
         \<and> (length (file_stream file) > MAX_FILE_SIZE
              \<longrightarrow> upload uuid4 now1 now2 fs (Some file)
                   = (fs, Inr (413, Error ''File too large! Maximum 5.0MB allowed'')))
         \<and> (\<not> length (file_stream file) > MAX_FILE_SIZE
              \<longrightarrow> (\<forall>b. snd (upload uuid4 now1 now2 fs (Some file)) \<noteq> Inr (413, b)))"
proof (intro conjI impI)
  show "MAX_FILE_SIZE = 5242880"
    by (simp add: MAX_FILE_SIZE_def)
next
  assume "length (file_stream file) > MAX_FILE_SIZE"
  then show "upload uuid4 now1 now2 fs (Some file)
               = (fs, Inr (413, Error ''File too large! Maximum 5.0MB allowed''))"
    using assms by (simp add: upload_def Let_def max_mb_str_num)
next
  assume "\<not> length (file_stream file) > MAX_FILE_SIZE"
  then show "\<forall>b. snd (upload uuid4 now1 now2 fs (Some file)) \<noteq> Inr (413, b)"
    using assms by (simp add: upload_def Let_def split: sum.split)
qed

theorem C3_size_exceeded_witness:
  "file_name \<lparr>file_name = ''scan.pdf'', file_stream = replicate 6291456 0\<rparr> \<noteq> []
   \<and> length (file_stream \<lparr>file_name = ''scan.pdf'', file_stream = replicate 6291456 0\<rparr>)
       > MAX_FILE_SIZE
   \<and> upload 0x1234abcd000000000000000000000000
        \<lparr>year = 2024, month = 11, day = 7, hour = 9, minute = 5, second = 3\<rparr>
        \<lparr>year = 2024, month = 11, day = 7, hour = 9, minute = 5, second = 4\<rparr>
        \<lparr>root_real = ''/srv/uploads'', entries = [], dir_size = 4096,
          readable = True, writable = True\<rparr>
        (Some \<lparr>file_name = ''scan.pdf'', file_stream = replicate 6291456 0\<rparr>)
       = (\<lparr>root_real = ''/srv/uploads'', entries = [], dir_size = 4096,
            readable = True, writable = True\<rparr>,
          Inr (413, Error ''File too large! Maximum 5.0MB allowed''))"
proof -
  have n: "file_name \<lparr>file_name = ''scan.pdf'', file_stream = replicate 6291456 (0 :: 8 word)\<rparr> \<noteq> []"
    by simp
  have big: "length (file_stream \<lparr>file_name = ''scan.pdf'',
                 file_stream = replicate 6291456 (0 :: 8 word)\<rparr>) > MAX_FILE_SIZE"
    by (simp add: MAX_FILE_SIZE_def)
  from C3_size_exceeded [OF n, of "0x1234abcd000000000000000000000000"
      "\<lparr>year = 2024, month = 11, day = 7, hour = 9, minute = 5, second = 3\<rparr>"
      "\<lparr>year = 2024, month = 11, day = 7, hour = 9, minute = 5, second = 4\<rparr>"
      "\<lparr>root_real = ''/srv/uploads'', entries = [], dir_size = 4096,
          readable = True, writable = True\<rparr>"] big n
  show ?thesis by blast
qed

text \<open>
  C8. The size check of \<^verbatim>\<open>upload\<close> comes before the check of the extension: a file
  that is too large and whose name \<^verbatim>\<open>allowed_file\<close> rejects is answered with 413, not
  with the 400 of a file type that is not allowed.
\<close>

theorem C8_size_before_extension:
  assumes "file_name file \<noteq> []"
    and "length (file_stream file) > MAX_FILE_SIZE"
    and "\<not> allowed_file (file_name file)"
  shows "upload uuid4 now1 now2 fs (Some file)
           = (fs, Inr (413, Error ''File too large! Maximum 5.0MB allowed''))
         \<and> snd (upload uuid4 now1 now2 fs (Some file))
             \<noteq> Inr (400, ErrorTypes ''File type not allowed'' ALLOWED_EXTENSIONS)"
  using assms by (simp add: upload_def Let_def max_mb_str_num)

theorem C8_size_before_extension_witness:
  "file_name \<lparr>file_name = ''setup.exe'', file_stream = replicate 6291456 0\<rparr> \<noteq> []
   \<and> length (file_stream \<lparr>file_name = ''setup.exe'', file_stream = replicate 6291456 0\<rparr>)
       > MAX_FILE_SIZE
   \<and> \<not> allowed_file (file_name \<lparr>file_name = ''setup.exe'', file_stream = replicate 6291456 0\<rparr>)
   \<and> upload 0x1234abcd000000000000000000000000
        \<lparr>year = 2024, month = 11, day = 7, hour = 9, minute = 5, second = 3\<rparr>
        \<lparr>year = 2024, month = 11, day = 7, hour = 9, minute = 5, second = 4\<rparr>
        \<lparr>root_real = ''/srv/uploads'', entries = [], dir_size = 4096,
          readable = True, writable = True\<rparr>
        (Some \<lparr>file_name = ''setup.exe'', file_stream = replicate 6291456 0\<rparr>)
       = (\<lparr>root_real = ''/srv/uploads'', entries = [], dir_size = 4096,
            readable = True, writable = True\<rparr>,
          Inr (413, Error ''File too large! Maximum 5.0MB allowed''))"
proof -
  have n: "file_name \<lparr>file_name = ''setup.exe'', file_stream = replicate 6291456 (0 :: 8 word)\<rparr> \<noteq> []"
    by simp
  have big: "length (file_stream \<lparr>file_name = ''setup.exe'',
                 file_stream = replicate 6291456 (0 :: 8 word)\<rparr>) > MAX_FILE_SIZE"
    by (simp add: MAX_FILE_SIZE_def)
  have bad: "\<not> allowed_file (file_name \<lparr>file_name = ''setup.exe'',
                 file_stream = replicate 6291456 (0 :: 8 word)\<rparr>)"
    by (simp add: allowed_file_def allowed_file_with_def string_eval
        ALLOWED_EXTENSIONS_def DANGEROUS_EXTENSIONS_def)
  from C8_size_before_extension [OF n big bad, of "0x1234abcd000000000000000000000000"
      "\<lparr>year = 2024, month = 11, day = 7, hour = 9, minute = 5, second = 3\<rparr>"
      "\<lparr>year = 2024, month = 11, day = 7, hour = 9, minute = 5, second = 4\<rparr>"
      "\<lparr>root_real = ''/srv/uploads'', entries = [], dir_size = 4096,
          readable = True, writable = True\<rparr>"] n big bad
  show ?thesis by blast
qed

section \<open>Listing\<close>

lemma files_loop_sized:
  "files_loop fs names (files_list, size_total) =
     Inr (files_list @
            map (\<lambda>(f, n). \<lparr>item_filename = f,
                             item_size_mb = py_round (of_nat n / (1024 * 1024)) 2,
                             item_download_url = ''/download/'' @ f\<rparr>) (sized_files fs names),
          size_total + (\<Sum>(f, n) \<leftarrow> sized_files fs names. py_round (of_nat n / (1024 * 1024)) 2))"
proof (induction names arbitrary: files_list size_total)
  case Nil
  then show ?case by simp
next
  case (Cons filename rest)
  show ?case
  proof (cases "stat fs (os_path_join UPLOAD_FOLDER filename)")
    case None
    then show ?thesis
      using Cons.IH by (simp add: os_path_isfile_def)
  next
    case (Some k)
    then show ?thesis
      using Cons.IH
      by (cases k) (simp_all add: os_path_isfile_def os_path_getsize_def Let_def add.assoc)
  qed
qed

lemma round_small: "py_round (3000 / (1024 * 1024)) 2 = 0"
  by code_simp

lemma round_zero: "py_round (0 + 0) 2 = 0"
  by code_simp

lemma round_sum: "py_round ((3000 + 3000) / (1024 * 1024)) 2 = 1 / 100"
  by code_simp

text \<open>
  C10. When the folder can be listed, \<^verbatim>\<open>files\<close> reports one item for every name of
  the listing that leads to a regular file, and the number of these items. The size of
  an item is its size in MiB rounded to two decimals, and the reported total is the sum
  of these rounded sizes, rounded again. The last two conjuncts show that this is not
  the rounding of the exact total: two files of 3000 bytes are reported with the total
  0.0, while their 6000 bytes round to 0.01.
\<close>

theorem C10_total_of_rounded_sizes:
  assumes "readable fs"
  shows "files fs =
           Inr (200, Listing
             (length (sized_files fs (map fst (entries fs))))
             (py_round (\<Sum>(f, n) \<leftarrow> sized_files fs (map fst (entries fs)).
                           py_round (of_nat n / (1024 * 1024)) 2) 2)
             (map (\<lambda>(f, n). \<lparr>item_filename = f,
                              item_size_mb = py_round (of_nat n / (1024 * 1024)) 2,
                              item_download_url = ''/download/'' @ f\<rparr>)
                  (sized_files fs (map fst (entries fs)))))
         \<and> py_round (py_round (3000 / (1024 * 1024)) 2
                      + py_round (3000 / (1024 * 1024)) 2) 2 = 0
         \<and> py_round ((3000 + 3000) / (1024 * 1024)) 2 = 1 / 100"
proof (intro conjI)
  show "files fs =
           Inr (200, Listing
             (length (sized_files fs (map fst (entries fs))))
             (py_round (\<Sum>(f, n) \<leftarrow> sized_files fs (map fst (entries fs)).
                           py_round (of_nat n / (1024 * 1024)) 2) 2)
             (map (\<lambda>(f, n). \<lparr>item_filename = f,
                              item_size_mb = py_round (of_nat n / (1024 * 1024)) 2,
                              item_download_url = ''/download/'' @ f\<rparr>)
                  (sized_files fs (map fst (entries fs)))))"
    using assms by (simp add: files_def os_listdir_def files_loop_sized)
  show "py_round (py_round (3000 / (1024 * 1024)) 2
                      + py_round (3000 / (1024 * 1024)) 2) 2 = 0"
    unfolding round_small by (rule round_zero)
  show "py_round ((3000 + 3000) / (1024 * 1024)) 2 = 1 / 100"
    by (rule round_sum)
qed

theorem C10_total_of_rounded_sizes_witness:
  "readable \<lparr>root_real = ''/srv/uploads'',
        entries = [(''a.pdf'', Plain (File (replicate 3000 0))), (''old'', Plain Dir),
                   (''b.png'', Plain (File (replicate 3000 0)))],
        dir_size = 4096, readable = True, writable = True\<rparr>
   \<and> files \<lparr>root_real = ''/srv/uploads'',
        entries = [(''a.pdf'', Plain (File (replicate 3000 0))), (''old'', Plain Dir),
                   (''b.png'', Plain (File (replicate 3000 0)))],
        dir_size = 4096, readable = True, writable = True\<rparr>
     = Inr (200, Listing 2 0
         [\<lparr>item_filename = ''a.pdf'', item_size_mb = 0, item_download_url = ''/download/a.pdf''\<rparr>,
          \<lparr>item_filename = ''b.png'', item_size_mb = 0, item_download_url = ''/download/b.png''\<rparr>])"
proof -
  have r: "readable \<lparr>root_real = ''/srv/uploads'',
        entries = [(''a.pdf'', Plain (File (replicate 3000 (0 :: 8 word)))), (''old'', Plain Dir),
                   (''b.png'', Plain (File (replicate 3000 0)))],
        dir_size = 4096, readable = True, writable = True\<rparr>"
    by simp
  from C10_total_of_rounded_sizes [OF r] r
  show ?thesis
    by (simp add: fs_eval round_small [simplified] round_zero [simplified])
qed

section \<open>Round trip\<close>







end
